theory Spec2Isabelle
  imports Main
begin

section \<open>Data model of server.py\<close>

text \<open>
  The pydantic models of the server become records. Python's \<open>int\<close> is unbounded, so it is
  \<open>int\<close>; \<open>Optional[str]\<close> is \<open>string option\<close>. Three fields are renamed because their
  source names are reserved words or library constants here: \<open>TextDocument.text\<close> is
  \<open>text_content\<close>, \<open>Diagnostic.range\<close> is \<open>diag_range\<close>, and the keys \<open>"start"\<close> and
  \<open>"end"\<close> of a range are \<open>start_pos\<close> and \<open>end_pos\<close>.

  The document text is the one \<open>str\<close> whose content the server looks into: the namer
  encodes it to bytes. It is therefore a list of Unicode code points, as a Python \<open>str\<close> is
  (each code point is below \<open>0x110000\<close>; the surrogates \<open>0xD800\<close> to \<open>0xDFFF\<close> may
  occur in a \<open>str\<close>). The other strings are passed along unread or are ASCII, and are of
  type \<open>string\<close>; \<open>ascii\<close> reads an ASCII literal as a list of code points.
\<close>

type_synonym unicode = "nat list"

definition ascii :: "string \<Rightarrow> unicode" where
  "ascii s = map of_char s"

record Position =
  line :: int
  character :: int

record TextDocument =
  text_content :: unicode

record CompletionParams =
  text_document :: TextDocument
  position :: Position

record CompletionItem =
  label :: string
  kind :: int
  detail :: "string option"
  documentation :: "string option"

text \<open>
  \<open>create_range\<close> returns the dictionary
  \<open>{"start": {"line": _, "character": _}, "end": {"line": _, "character": _}}\<close>:
  always the same four keys, so it is a record of two positions.
\<close>

record Range =
  start_pos :: Position
  end_pos :: Position

record Diagnostic =
  diag_range :: Range
  message :: string
  severity :: int

record CompletionResponse =
  items :: "CompletionItem list"

record DiagnosticResponse =
  diagnostics :: "Diagnostic list"

section \<open>Exceptions and the external collaborators\<close>

text \<open>
  An exception that \<open>except Exception\<close> catches is a value carrying the text that \<open>str(e)\<close>
  returns. \<open>HTTPException\<close> is what the completion handler raises towards the framework.
\<close>

datatype exn = Exception (str: string)

record HTTPException =
  status_code :: int
  err_detail :: string

text \<open>
  A \<open>SyntaxError\<close> as the handler reads it: \<open>e.lineno\<close> and \<open>e.offset\<close> are an integer or
  \<open>None\<close>, and \<open>syntax_str\<close> is the text of \<open>str(e)\<close>.
\<close>

record SyntaxError =
  lineno :: "int option"
  offset :: "int option"
  syntax_str :: string

text \<open>
  The three ways \<open>ast.parse(document_text)\<close> can end: it returns, it raises a
  \<open>SyntaxError\<close>, or it raises an exception of another class. The parser itself is a
  parameter \<open>ast_parse\<close> of the handler.
\<close>

datatype parse_result =
    Parsed
  | RaisesSyntaxError SyntaxError
  | Raises exn

text \<open>
  One element of the sequence that \<open>script.complete\<close> returns. \<open>name\<close> and \<open>ctype\<close> are the
  attributes \<open>completion.name\<close> and \<open>completion.type\<close>; \<open>docstring\<close> is the outcome of the
  call \<open>completion.docstring()\<close>, which runs engine code and may raise.
\<close>

record Completion =
  name :: string
  ctype :: string
  docstring :: "exn + string"

text \<open>
  The engine: the constructor \<open>jedi.Script(code=_, path=_)\<close> and the method
  \<open>script.complete(line, character)\<close>, either of which may raise.
\<close>

record 's jedi =
  Script :: "unicode \<Rightarrow> string \<Rightarrow> exn + 's"
  complete :: "'s \<Rightarrow> int \<Rightarrow> int \<Rightarrow> exn + Completion list"

section \<open>Kind mapper\<close>

definition COMPLETION_KINDS :: "(string \<times> int) list" where
  "COMPLETION_KINDS =
     [(''module'', 9), (''class'', 7), (''instance'', 6), (''function'', 3),
      (''param'', 6), (''path'', 17), (''keyword'', 14), (''property'', 10), (''method'', 2)]"

definition get_completion_kind :: "string \<Rightarrow> int" where
  "get_completion_kind type_name =
     (case map_of COMPLETION_KINDS type_name of Some k \<Rightarrow> k | None \<Rightarrow> 1)"

section \<open>Ranges\<close>

text \<open>
  Python's \<open>v or d\<close> on an optional integer: \<open>None\<close> and \<open>0\<close> are both falsy, so either of
  them yields \<open>d\<close>.
\<close>

definition py_or :: "int option \<Rightarrow> int \<Rightarrow> int" where
  "py_or v d = (case v of None \<Rightarrow> d | Some n \<Rightarrow> if n = 0 then d else n)"

definition create_range :: "int \<Rightarrow> int \<Rightarrow> int option \<Rightarrow> int option \<Rightarrow> Range" where
  "create_range ln column end_line end_column =
     (let end_line' = py_or end_line ln;
          end_column' = py_or end_column (column + 1)
      in \<lparr>start_pos = \<lparr>line = ln, character = column\<rparr>,
          end_pos = \<lparr>line = end_line', character = end_column'\<rparr>\<rparr>)"

section \<open>Virtual document namer\<close>

text \<open>
  \<open>document_text.encode()\<close> is the strict UTF-8 encoder of Python. A code point that is
  not a surrogate becomes one to four bytes.
\<close>

definition is_surrogate :: "nat \<Rightarrow> bool" where
  "is_surrogate c \<longleftrightarrow> 0xD800 \<le> c \<and> c \<le> 0xDFFF"

definition utf8_bytes :: "nat \<Rightarrow> nat list" where
  "utf8_bytes c =
     (if c < 0x80 then [c]
      else if c < 0x800 then [0xC0 + c div 0x40, 0x80 + c mod 0x40]
      else if c < 0x10000 then
        [0xE0 + c div 0x1000, 0x80 + c div 0x40 mod 0x40, 0x80 + c mod 0x40]
      else
        [0xF0 + c div 0x40000, 0x80 + c div 0x1000 mod 0x40,
         0x80 + c div 0x40 mod 0x40, 0x80 + c mod 0x40])"

text \<open>
  On a surrogate the encoder raises \<open>UnicodeEncodeError\<close>. The text of the exception
  names the code point and its position when one surrogate stands alone, and the first
  and last position of the run when several follow one another:
  \<^verbatim>\<open>'utf-8' codec can't encode character '\ud800' in position 0: surrogates not allowed\<close>
  \<^verbatim>\<open>'utf-8' codec can't encode characters in position 2-4: surrogates not allowed\<close>
\<close>

definition hex_digit :: "nat \<Rightarrow> char" where
  "hex_digit d = ''0123456789abcdef'' ! d"

definition hex4 :: "nat \<Rightarrow> string" where
  "hex4 c = [hex_digit (c div 0x1000 mod 0x10), hex_digit (c div 0x100 mod 0x10),
             hex_digit (c div 0x10 mod 0x10), hex_digit (c mod 0x10)]"

fun decimal :: "nat \<Rightarrow> string" where
  "decimal n =
     (if n < 10 then [''0123456789'' ! n]
      else decimal (n div 10) @ [''0123456789'' ! (n mod 10)])"

declare decimal.simps [simp del]

definition surrogates_not_allowed :: "nat \<Rightarrow> nat \<Rightarrow> nat list \<Rightarrow> exn" where
  "surrogates_not_allowed start c run =
     Exception
       ([CHR 0x27] @ ''utf-8'' @ [CHR 0x27] @ '' codec can'' @ [CHR 0x27] @ ''t encode '' @
        (if run = [] then
           ''character '' @ [CHR 0x27, CHR 0x5C] @ ''u'' @ hex4 c @ [CHR 0x27] @
           '' in position '' @ decimal start
         else
           ''characters in position '' @ decimal start @ ''-'' @
           decimal (start + length run)) @
        '': surrogates not allowed'')"

text \<open>
  The encoder, from position \<open>i\<close> on. \<open>run\<close> above is the run of surrogates that
  follows the first one.
\<close>

fun encode_from :: "nat \<Rightarrow> unicode \<Rightarrow> exn + nat list" where
  "encode_from i [] = Inr []"
| "encode_from i (c # cs) =
     (if is_surrogate c then Inl (surrogates_not_allowed i c (takeWhile is_surrogate cs))
      else (case encode_from (Suc i) cs of
              Inl e \<Rightarrow> Inl e
            | Inr bs \<Rightarrow> Inr (utf8_bytes c @ bs)))"

definition encode :: "unicode \<Rightarrow> exn + nat list" where
  "encode s = encode_from 0 s"

text \<open>
  \<open>md5_hexdigest\<close> stands for \<open>hashlib.md5(b).hexdigest()\<close> on the encoded bytes, a
  library function and so a parameter. The namer raises what the encoder raises.
\<close>

definition get_virtual_path :: "(nat list \<Rightarrow> string) \<Rightarrow> unicode \<Rightarrow> exn + string" where
  "get_virtual_path md5_hexdigest document_text =
     (case encode document_text of
        Inl e \<Rightarrow> Inl e
      | Inr b \<Rightarrow> Inr (''<virtual_document_'' @ md5_hexdigest b @ ''.py>''))"

section \<open>Coordinate translation\<close>

text \<open>
  The handlers translate coordinates inline. \<open>engine_position\<close> is lines 106 and 107 of
  \<open>provide_completion\<close>; \<open>client_line\<close> and \<open>client_col\<close> are lines 157, 161 and 158, 162
  of \<open>provide_diagnostics\<close>.
\<close>

definition engine_position :: "Position \<Rightarrow> int \<times> int" where
  "engine_position p = (line p + 1, character p)"

definition client_line :: "int option \<Rightarrow> int" where
  "client_line e_lineno =
     (let ln = (case e_lineno of Some n \<Rightarrow> n - 1 | None \<Rightarrow> 0)
      in if ln < 0 then 0 else ln)"

definition client_col :: "int option \<Rightarrow> int" where
  "client_col e_offset =
     (let col = (case e_offset of Some n \<Rightarrow> n - 1 | None \<Rightarrow> 0)
      in if col < 0 then 0 else col)"

section \<open>Completion handler\<close>

text \<open>
  The \<open>for\<close> loop of \<open>provide_completion\<close>, with \<open>completion_items\<close> as accumulator. An
  exception from \<open>docstring()\<close> leaves the loop and the accumulated items are dropped.
\<close>

fun build_items :: "Completion list \<Rightarrow> CompletionItem list \<Rightarrow> exn + CompletionItem list" where
  "build_items [] completion_items = Inr completion_items"
| "build_items (completion # completions) completion_items =
     (case docstring completion of
        Inl e \<Rightarrow> Inl e
      | Inr d \<Rightarrow>
          build_items completions
            (completion_items @
               [\<lparr>label = name completion,
                 kind = get_completion_kind (ctype completion),
                 detail = Some (ctype completion),
                 documentation = Some d\<rparr>]))"

text \<open>
  The body of the \<open>try\<close> block. The \<open>print\<close> of the number of items writes to the
  console only and is left out.
\<close>

definition completion_body ::
  "(nat list \<Rightarrow> string) \<Rightarrow> 's jedi \<Rightarrow> CompletionParams \<Rightarrow> exn + CompletionResponse" where
  "completion_body md5_hexdigest engine params =
     (let document_text = text_content (text_document params);
          (ln, ch) = engine_position (position params)
      in case get_virtual_path md5_hexdigest document_text of
           Inl e \<Rightarrow> Inl e
         | Inr path \<Rightarrow>
             (case Script engine document_text path of
                Inl e \<Rightarrow> Inl e
              | Inr script \<Rightarrow>
                  (case complete engine script ln ch of
                     Inl e \<Rightarrow> Inl e
                   | Inr completions \<Rightarrow>
                       (case build_items completions [] of
                          Inl e \<Rightarrow> Inl e
                        | Inr completion_items \<Rightarrow>
                            Inr \<lparr>items = completion_items\<rparr>))))"

text \<open>
  The handler: the \<open>except Exception\<close> clause turns any exception of the body into an
  \<open>HTTPException\<close> with status 500.
\<close>

definition provide_completion ::
  "(nat list \<Rightarrow> string) \<Rightarrow> 's jedi \<Rightarrow> CompletionParams \<Rightarrow> HTTPException + CompletionResponse" where
  "provide_completion md5_hexdigest engine params =
     (case completion_body md5_hexdigest engine params of
        Inl e \<Rightarrow> Inl \<lparr>status_code = 500, err_detail = ''Completion error: '' @ str e\<rparr>
      | Inr response \<Rightarrow> Inr response)"

section \<open>Diagnostics handler\<close>

text \<open>
  Only \<open>SyntaxError\<close> is caught; any other exception of \<open>ast.parse\<close> leaves the handler
  (\<open>Inl\<close>), and the framework answers with a server error.
\<close>

definition provide_diagnostics ::
  "(unicode \<Rightarrow> parse_result) \<Rightarrow> TextDocument \<Rightarrow> exn + DiagnosticResponse" where
  "provide_diagnostics ast_parse params =
     (let document_text = text_content params;
          diagnostics0 = []
      in case ast_parse document_text of
           Parsed \<Rightarrow> Inr \<lparr>diagnostics = diagnostics0\<rparr>
         | RaisesSyntaxError e \<Rightarrow>
             (let ln = client_line (lineno e);
                  col = client_col (offset e);
                  diagnostic = \<lparr>diag_range = create_range ln col None None,
                                message = syntax_str e,
                                severity = 1\<rparr>
              in Inr \<lparr>diagnostics = diagnostics0 @ [diagnostic]\<rparr>)
         | Raises x \<Rightarrow> Inl x)"

section \<open>Example collaborators\<close>

text \<open>
  A small parser and a small engine on which the results below are evaluated. The parser
  accepts \<open>x = 1\<close>, reports a syntax error at line 1, offset 8 for \<open>if True\<close>, reports
  one without a line for the empty text, and fails with another exception otherwise. The
  engine answers at engine line 1 with three matches, raises at engine line 2, and
  elsewhere returns three matches of which the second has a failing \<open>docstring()\<close>.
  The digest is the sum of the bytes, modulo \<open>0x10000\<close>, in four hexadecimal digits.
\<close>

definition example_parse :: "unicode \<Rightarrow> parse_result" where
  "example_parse document_text =
     (if document_text = ascii ''x = 1'' then Parsed
      else if document_text = ascii ''if True'' then
        RaisesSyntaxError \<lparr>lineno = Some 1, offset = Some 8,
                            syntax_str = ''invalid syntax (<unknown>, line 1)''\<rparr>
      else if document_text = [] then
        RaisesSyntaxError \<lparr>lineno = None, offset = Some 0, syntax_str = ''no position''\<rparr>
      else Raises (Exception ''source code string cannot contain null bytes''))"

definition example_digest :: "nat list \<Rightarrow> string" where
  "example_digest b = hex4 (sum_list b mod 0x10000)"

definition example_completions :: "Completion list" where
  "example_completions =
     [\<lparr>name = ''add'', ctype = ''function'', docstring = Inr ''add(a, b)''\<rparr>,
      \<lparr>name = ''Calculator'', ctype = ''class'', docstring = Inr ''''\<rparr>,
      \<lparr>name = ''add'', ctype = ''statement'', docstring = Inr ''''\<rparr>]"

definition example_engine :: "unit jedi" where
  "example_engine =
     \<lparr>Script = (\<lambda>code path. if code = ascii ''boom'' then Inl (Exception ''cannot parse'') else Inr ()),
      complete = (\<lambda>script ln ch.
         if ln = 1 then Inr example_completions
         else if ln = 2 then Inl (Exception ''engine fault'')
         else Inr [\<lparr>name = ''add'', ctype = ''function'', docstring = Inr ''add(a, b)''\<rparr>,
                   \<lparr>name = ''sub'', ctype = ''function'', docstring = Inl (Exception ''no docstring'')\<rparr>,
                   \<lparr>name = ''mul'', ctype = ''function'', docstring = Inr ''mul(a, b)''\<rparr>])\<rparr>"

definition example_params :: "int \<Rightarrow> CompletionParams" where
  "example_params l =
     \<lparr>text_document = \<lparr>text_content = ascii ''example_module.''\<rparr>,
      position = \<lparr>line = l, character = 15\<rparr>\<rparr>"

text \<open>The item that one pass of the loop appends for a match whose docstring is available.\<close>

definition item_of :: "Completion \<Rightarrow> CompletionItem" where
  "item_of m = \<lparr>label = name m, kind = get_completion_kind (ctype m),
                detail = Some (ctype m), documentation = Some (projr (docstring m))\<rparr>"

section \<open>The encoder\<close>

text \<open>
  The encoder returns the bytes of all code points, in order, when the text has no
  surrogate, and raises otherwise; and the bytes determine the text.
\<close>

lemma encode_from_no_surrogate:
  "\<forall>c\<in>set s. \<not> is_surrogate c \<Longrightarrow> encode_from i s = Inr (concat (map utf8_bytes s))"
  by (induction s arbitrary: i) simp_all

lemma encode_from_surrogate:
  "\<exists>c\<in>set s. is_surrogate c \<Longrightarrow> isl (encode_from i s)"
proof (induction s arbitrary: i)
  case Nil
  then show ?case by simp
next
  case (Cons c s)
  show ?case
  proof (cases "is_surrogate c")
    case True
    then show ?thesis by simp
  next
    case False
    with Cons.prems have "\<exists>c\<in>set s. is_surrogate c" by simp
    then have "isl (encode_from (Suc i) s)" by (rule Cons.IH)
    with False show ?thesis by (cases "encode_from (Suc i) s") simp_all
  qed
qed

lemma same_div_mod_64:
  "(c::nat) div 64 = c' div 64 \<Longrightarrow> c mod 64 = c' mod 64 \<Longrightarrow> c = c'"
  by (metis div_mult_mod_eq)

lemma utf8_bytes_prefix:
  assumes "utf8_bytes c @ r = utf8_bytes c' @ r'"
  shows "c = c' \<and> r = r'"
proof -
  have d2: "x div 4096 = x div 64 div 64"
    and d3: "x div 262144 = x div 64 div 64 div 64" for x :: nat
    by (simp_all add: div_mult2_eq)
  from assms show ?thesis
    by (auto simp: utf8_bytes_def d2 d3 split: if_splits intro: same_div_mod_64)
qed

lemma utf8_bytes_not_Nil: "utf8_bytes c \<noteq> []"
  by (simp add: utf8_bytes_def)

lemma utf8_bytes_inj:
  "concat (map utf8_bytes s) = concat (map utf8_bytes s') \<Longrightarrow> s = s'"
proof (induction s arbitrary: s')
  case Nil
  then show ?case
    by (cases s') (simp_all add: utf8_bytes_not_Nil)
next
  case (Cons c s)
  show ?case
  proof (cases s')
    case Nil
    with Cons.prems show ?thesis
      by (simp add: utf8_bytes_not_Nil)
  next
    case (Cons c' r')
    with Cons.prems
    have "utf8_bytes c @ concat (map utf8_bytes s) = utf8_bytes c' @ concat (map utf8_bytes r')"
      by simp
    then have "c = c'" and "concat (map utf8_bytes s) = concat (map utf8_bytes r')"
      using utf8_bytes_prefix by blast+
    with Cons.IH Cons show ?thesis by simp
  qed
qed

lemma get_virtual_path_no_surrogate:
  "\<forall>c\<in>set t. \<not> is_surrogate c \<Longrightarrow>
     get_virtual_path md5 t
       = Inr (''<virtual_document_'' @ md5 (concat (map utf8_bytes t)) @ ''.py>'')"
  by (simp add: get_virtual_path_def encode_def encode_from_no_surrogate)

lemma get_virtual_path_surrogate:
  "\<exists>c\<in>set t. is_surrogate c \<Longrightarrow> isl (get_virtual_path md5 t)"
  using encode_from_surrogate [of t 0]
  by (auto simp: get_virtual_path_def encode_def split: sum.splits)

lemma example_path:
  "get_virtual_path example_digest (text_content (text_document (example_params l)))
     = Inr ''<virtual_document_05ff.py>''"
  by (simp add: get_virtual_path_def encode_def example_params_def ascii_def
                is_surrogate_def utf8_bytes_def example_digest_def hex4_def hex_digit_def)

section \<open>The loop over the matches\<close>

lemma build_items_all_ok:
  "\<forall>m\<in>set ms. \<not> isl (docstring m) \<Longrightarrow> build_items ms acc = Inr (acc @ map item_of ms)"
proof (induction ms arbitrary: acc)
  case Nil
  show ?case by simp
next
  case (Cons m ms)
  from Cons.prems obtain d where d: "docstring m = Inr d"
    by (cases "docstring m") auto
  from Cons.prems have rest: "\<forall>m\<in>set ms. \<not> isl (docstring m)" by simp
  show ?case
    using Cons.IH [OF rest] d by (simp add: item_of_def)
qed

lemma build_items_raises:
  "\<forall>m\<in>set pre. \<not> isl (docstring m) \<Longrightarrow> docstring m = Inl e
     \<Longrightarrow> build_items (pre @ m # post) acc = Inl e"
proof (induction pre arbitrary: acc)
  case Nil
  then show ?case by simp
next
  case (Cons p pre)
  from Cons.prems obtain d where d: "docstring p = Inr d"
    by (cases "docstring p") auto
  from Cons.prems have rest: "\<forall>m\<in>set pre. \<not> isl (docstring m)" by simp
  show ?case
    using Cons.IH [OF rest Cons.prems(2)] d by simp
qed

lemma completion_body_ok:
  assumes "get_virtual_path md5 (text_content (text_document params)) = Inr path"
    and "Script engine (text_content (text_document params)) path = Inr script"
    and "complete engine script (line (position params) + 1) (character (position params)) = Inr ms"
    and "\<forall>m\<in>set ms. \<not> isl (docstring m)"
  shows "provide_completion md5 engine params = Inr \<lparr>items = map item_of ms\<rparr>"
  using assms build_items_all_ok [OF assms(4), of "[]"]
  by (simp add: provide_completion_def completion_body_def engine_position_def)

section \<open>Kind mapper: the table\<close>

text \<open>
  C1, as stated: the table maps \<open>parameter\<close> to 6. The key of the source's table is
  \<open>param\<close>, the engine's own category name, so \<open>parameter\<close> falls to the default.
\<close>

theorem kind_parameter_is_default:
  "get_completion_kind ''parameter'' \<noteq> 6"
  by (simp add: get_completion_kind_def COMPLETION_KINDS_def)

text \<open>
  C1, amended: each of the nine keys of the table (module, class, instance, function,
  param, path, keyword, property, method) maps to its integer, and every other string
  maps to 1.
\<close>

theorem get_completion_kind_table:
  "get_completion_kind ''module'' = 9 \<and>
   get_completion_kind ''class'' = 7 \<and>
   get_completion_kind ''instance'' = 6 \<and>
   get_completion_kind ''function'' = 3 \<and>
   get_completion_kind ''param'' = 6 \<and>
   get_completion_kind ''path'' = 17 \<and>
   get_completion_kind ''keyword'' = 14 \<and>
   get_completion_kind ''property'' = 10 \<and>
   get_completion_kind ''method'' = 2 \<and>
   (\<forall>t. t \<notin> {''module'', ''class'', ''instance'', ''function'', ''param'', ''path'',
                ''keyword'', ''property'', ''method''}
        \<longrightarrow> get_completion_kind t = 1)"
  by (simp add: get_completion_kind_def COMPLETION_KINDS_def)

theorem get_completion_kind_table_witness:
  "''parameter'' \<notin> {''module'', ''class'', ''instance'', ''function'', ''param'', ''path'',
                     ''keyword'', ''property'', ''method''}
   \<and> get_completion_kind ''parameter'' = 1 \<and> get_completion_kind ''param'' = 6"
  using get_completion_kind_table by simp

section \<open>Ranges: an explicit end\<close>

text \<open>
  C2: an end that is supplied explicitly is the end of the range, the value 0 included.
  At \<open>create_range(3, 5, 4, 0)\<close>, the range from line 3, column 5 to the start of line 4,
  the supplied end column 0 is replaced by \<open>column + 1 = 6\<close>.
\<close>

theorem create_range_explicit_zero:
  "create_range 3 5 (Some 4) (Some 0) =
     \<lparr>start_pos = \<lparr>line = 3, character = 5\<rparr>, end_pos = \<lparr>line = 4, character = 6\<rparr>\<rparr>"
  by (simp add: create_range_def py_or_def)

section \<open>Diagnostics: zero or one entry\<close>

text \<open>
  C3: the diagnostics operation returns at most one diagnostic. When the parse succeeds it
  returns none; when the parse fails with a syntax error it returns exactly one, of
  severity 1, whose message is the text of the error. (The remaining outcome of the
  parse, an exception of another class, returns no list; see C8.)
\<close>

theorem provide_diagnostics_zero_or_one:
  "(\<forall>r. provide_diagnostics ast_parse params = Inr r \<longrightarrow> length (diagnostics r) \<le> 1) \<and>
   (ast_parse (text_content params) = Parsed \<longrightarrow>
      provide_diagnostics ast_parse params = Inr \<lparr>diagnostics = []\<rparr>) \<and>
   (\<forall>e. ast_parse (text_content params) = RaisesSyntaxError e \<longrightarrow>
      (\<exists>d. provide_diagnostics ast_parse params = Inr \<lparr>diagnostics = [d]\<rparr> \<and>
           severity d = 1 \<and> message d = syntax_str e))"
  by (cases "ast_parse (text_content params)") (auto simp: provide_diagnostics_def)

theorem provide_diagnostics_zero_or_one_witness:
  "provide_diagnostics example_parse \<lparr>text_content = ascii ''x = 1''\<rparr> = Inr \<lparr>diagnostics = []\<rparr> \<and>
   (\<exists>d. provide_diagnostics example_parse \<lparr>text_content = ascii ''if True''\<rparr>
           = Inr \<lparr>diagnostics = [d]\<rparr> \<and>
        severity d = 1 \<and> message d = ''invalid syntax (<unknown>, line 1)'')"
  using provide_diagnostics_zero_or_one [of example_parse "\<lparr>text_content = ascii ''x = 1''\<rparr>"]
        provide_diagnostics_zero_or_one [of example_parse "\<lparr>text_content = ascii ''if True''\<rparr>"]
  by (simp add: example_parse_def ascii_def)

section \<open>Diagnostics: the position of the entry\<close>

text \<open>
  C4: for a syntax failure, the start of the diagnostic is the parser's line and column
  less one, an absent line or column giving 0 and a negative result being raised to 0,
  and the range is the point range from \<open>(line, col)\<close> to \<open>(line, col + 1)\<close>.
\<close>

theorem provide_diagnostics_point_range:
  assumes "ast_parse (text_content params) = RaisesSyntaxError e"
  shows "\<exists>d. provide_diagnostics ast_parse params = Inr \<lparr>diagnostics = [d]\<rparr> \<and>
             line (start_pos (diag_range d))
               = (case lineno e of None \<Rightarrow> 0 | Some n \<Rightarrow> max (n - 1) 0) \<and>
             character (start_pos (diag_range d))
               = (case offset e of None \<Rightarrow> 0 | Some n \<Rightarrow> max (n - 1) 0) \<and>
             diag_range d
               = \<lparr>start_pos = start_pos (diag_range d),
                  end_pos = \<lparr>line = line (start_pos (diag_range d)),
                             character = character (start_pos (diag_range d)) + 1\<rparr>\<rparr>"
proof -
  have ln: "client_line v = (case v of None \<Rightarrow> 0 | Some n \<Rightarrow> max (n - 1) 0)" for v
    by (simp add: client_line_def split: option.splits)
  have col: "client_col v = (case v of None \<Rightarrow> 0 | Some n \<Rightarrow> max (n - 1) 0)" for v
    by (simp add: client_col_def split: option.splits)
  have rng: "create_range l c None None
               = \<lparr>start_pos = \<lparr>line = l, character = c\<rparr>,
                  end_pos = \<lparr>line = l, character = c + 1\<rparr>\<rparr>" for l c
    by (simp add: create_range_def py_or_def)
  show ?thesis
    using assms by (simp add: provide_diagnostics_def Let_def rng ln col)
qed

theorem provide_diagnostics_point_range_witness:
  "provide_diagnostics example_parse \<lparr>text_content = ascii ''if True''\<rparr>
     = Inr \<lparr>diagnostics =
          [\<lparr>diag_range = \<lparr>start_pos = \<lparr>line = 0, character = 7\<rparr>,
                           end_pos = \<lparr>line = 0, character = 8\<rparr>\<rparr>,
            message = ''invalid syntax (<unknown>, line 1)'', severity = 1\<rparr>]\<rparr> \<and>
   (\<exists>d. provide_diagnostics example_parse \<lparr>text_content = []\<rparr> = Inr \<lparr>diagnostics = [d]\<rparr> \<and>
        diag_range d = \<lparr>start_pos = \<lparr>line = 0, character = 0\<rparr>,
                        end_pos = \<lparr>line = 0, character = 1\<rparr>\<rparr>)"
proof -
  let ?e1 = "\<lparr>lineno = Some 1, offset = Some 8,
              syntax_str = ''invalid syntax (<unknown>, line 1)''\<rparr>"
  let ?e2 = "\<lparr>lineno = None, offset = Some 0, syntax_str = ''no position''\<rparr>"
  have "example_parse (text_content \<lparr>text_content = ascii ''if True''\<rparr>) = RaisesSyntaxError ?e1"
    by (simp add: example_parse_def ascii_def)
  from provide_diagnostics_point_range
         [where ast_parse = example_parse and params = "\<lparr>text_content = ascii ''if True''\<rparr>", OF this]
  have first: "provide_diagnostics example_parse \<lparr>text_content = ascii ''if True''\<rparr>
     = Inr \<lparr>diagnostics =
          [\<lparr>diag_range = \<lparr>start_pos = \<lparr>line = 0, character = 7\<rparr>,
                           end_pos = \<lparr>line = 0, character = 8\<rparr>\<rparr>,
            message = ''invalid syntax (<unknown>, line 1)'', severity = 1\<rparr>]\<rparr>"
    by (simp add: provide_diagnostics_def example_parse_def ascii_def client_line_def client_col_def
                  create_range_def py_or_def)
  have "example_parse (text_content \<lparr>text_content = []\<rparr>) = RaisesSyntaxError ?e2"
    by (simp add: example_parse_def ascii_def)
  from provide_diagnostics_point_range
         [where ast_parse = example_parse and params = "\<lparr>text_content = []\<rparr>", OF this]
  obtain d where d: "provide_diagnostics example_parse \<lparr>text_content = []\<rparr>
                       = Inr \<lparr>diagnostics = [d]\<rparr>"
    "line (start_pos (diag_range d)) = 0" "character (start_pos (diag_range d)) = 0"
    "diag_range d = \<lparr>start_pos = start_pos (diag_range d),
                  end_pos = \<lparr>line = line (start_pos (diag_range d)),
                             character = character (start_pos (diag_range d)) + 1\<rparr>\<rparr>"
    by auto
  from d(4) have "diag_range d = \<lparr>start_pos = \<lparr>line = 0, character = 0\<rparr>,
                        end_pos = \<lparr>line = 0, character = 1\<rparr>\<rparr>"
    using d(2,3) by (cases "diag_range d", cases "start_pos (diag_range d)") simp
  with d(1) first show ?thesis by (intro conjI exI [of _ d]) simp_all
qed


section \<open>Coordinate translation: the round trip\<close>

text \<open>
  C5, as stated: character offsets pass through unchanged in both directions. On the way
  back to the client (the diagnostics handler) the parser's column is 1-based and the
  handler subtracts one: offset 8 becomes character 7.
\<close>

theorem diagnostics_column_is_shifted:
  "client_col (Some 8) \<noteq> 8"
  by (simp add: client_col_def)

text \<open>
  C5, amended: for every non-negative line \<open>L\<close>, translating to the engine and back is the
  identity, where the engine line is \<open>L + 1\<close> and the client line is \<open>max (E - 1) 0\<close>.
  The character offset passes unchanged from the client to the engine; from the parser
  to the client the column is \<open>max (k - 1) 0\<close>, and an absent line or column is 0.
\<close>

theorem line_round_trip:
  "(\<forall>L\<ge>0. client_line (Some (fst (engine_position \<lparr>line = L, character = c\<rparr>))) = L) \<and>
   fst (engine_position p) = line p + 1 \<and>
   client_line (Some E) = max (E - 1) 0 \<and>
   snd (engine_position p) = character p \<and>
   client_col (Some k) = max (k - 1) 0 \<and>
   client_line None = 0 \<and> client_col None = 0"
  by (simp add: engine_position_def client_line_def client_col_def)

theorem line_round_trip_witness:
  "client_line (Some (fst (engine_position \<lparr>line = 4, character = 2\<rparr>))) = 4 \<and>
   snd (engine_position \<lparr>line = 4, character = 2\<rparr>) = 2 \<and>
   client_line (Some 0) = 0 \<and> client_col (Some 8) = 7"
proof -
  note rt = line_round_trip [of 2 "\<lparr>line = 4, character = 2\<rparr>" 0 8]
  have "client_line (Some (fst (engine_position \<lparr>line = 4, character = 2\<rparr>))) = 4"
    by (rule rt [THEN conjunct1, rule_format]) simp
  moreover from rt have "snd (engine_position \<lparr>line = 4, character = 2\<rparr>) = 2"
    and "client_line (Some 0) = 0" and "client_col (Some 8) = 7"
    by simp_all
  ultimately show ?thesis by simp
qed

section \<open>Completion: one item per match\<close>

text \<open>
  C6: when the engine returns a sequence of matches (the constructor, called on the text
  and its virtual path, \<open>complete\<close> and every \<open>docstring()\<close> call return), the
  completion operation returns one item per match,
  in the engine's order, each labelled with the name of its match; the label is not empty
  when the name is not.
\<close>

theorem provide_completion_one_item_per_match:
  assumes "get_virtual_path md5 (text_content (text_document params)) = Inr path"
    and "Script engine (text_content (text_document params)) path = Inr script"
    and "complete engine script (line (position params) + 1) (character (position params)) = Inr ms"
    and "\<forall>m\<in>set ms. \<not> isl (docstring m)"
  shows "\<exists>its. provide_completion md5 engine params = Inr \<lparr>items = its\<rparr> \<and>
               length its = length ms \<and>
               map label its = map name ms \<and>
               (\<forall>i<length ms. name (ms ! i) \<noteq> [] \<longrightarrow> label (its ! i) \<noteq> [])"
proof -
  have "provide_completion md5 engine params = Inr \<lparr>items = map item_of ms\<rparr>"
    by (rule completion_body_ok [OF assms])
  moreover have "map label (map item_of ms) = map name ms"
    by (simp add: item_of_def)
  moreover have "\<forall>i<length ms. name (ms ! i) \<noteq> [] \<longrightarrow> label (map item_of ms ! i) \<noteq> []"
    by (simp add: item_of_def)
  ultimately show ?thesis by auto
qed

theorem provide_completion_one_item_per_match_witness:
  "\<exists>its. provide_completion example_digest example_engine (example_params 0) = Inr \<lparr>items = its\<rparr> \<and>
          length its = 3 \<and> map label its = [''add'', ''Calculator'', ''add'']"
proof -
  have "\<exists>its. provide_completion example_digest example_engine (example_params 0)
                 = Inr \<lparr>items = its\<rparr> \<and>
               length its = length example_completions \<and>
               map label its = map name example_completions \<and>
               (\<forall>i<length example_completions.
                   name (example_completions ! i) \<noteq> [] \<longrightarrow> label (its ! i) \<noteq> [])"
    by (rule provide_completion_one_item_per_match [OF example_path, where script = "()"])
       (simp_all add: example_engine_def example_params_def example_completions_def ascii_def)
  then obtain its where
    "provide_completion example_digest example_engine (example_params 0) = Inr \<lparr>items = its\<rparr>"
    "length its = length example_completions"
    "map label its = map name example_completions"
    by blast
  then show ?thesis
    by (simp add: example_completions_def)
qed


section \<open>Completion: a failing engine\<close>

text \<open>
  C7: when the engine raises \<open>e\<close>, in the constructor, in \<open>complete\<close>, or in the
  \<open>docstring()\<close> call of some match after the items of the matches before it were built,
  the operation ends in a server error of status 500 whose detail carries the text of
  \<open>e\<close>, and it returns no response, hence no list of items, partial or otherwise. The
  same holds when the namer raises before the engine is reached.
\<close>

theorem provide_completion_engine_raises:
  assumes "get_virtual_path md5 (text_content (text_document params)) = Inl e
           \<or> (\<exists>path.
                get_virtual_path md5 (text_content (text_document params)) = Inr path \<and>
                (Script engine (text_content (text_document params)) path = Inl e
                 \<or> (\<exists>script.
                       Script engine (text_content (text_document params)) path = Inr script \<and>
                       (complete engine script (line (position params) + 1)
                          (character (position params)) = Inl e
                        \<or> (\<exists>pre m post.
                              complete engine script (line (position params) + 1)
                                (character (position params)) = Inr (pre @ m # post) \<and>
                              (\<forall>p\<in>set pre. \<not> isl (docstring p)) \<and>
                              docstring m = Inl e)))))"
  shows "provide_completion md5 engine params
           = Inl \<lparr>status_code = 500, err_detail = ''Completion error: '' @ str e\<rparr>
         \<and> (\<forall>r. provide_completion md5 engine params \<noteq> Inr r)"
proof -
  have "completion_body md5 engine params = Inl e"
    using assms
    by (auto simp: completion_body_def engine_position_def build_items_raises)
  then show ?thesis
    by (simp add: provide_completion_def)
qed

theorem provide_completion_engine_raises_witness:
  "provide_completion example_digest example_engine (example_params 2)
     = Inl \<lparr>status_code = 500, err_detail = ''Completion error: no docstring''\<rparr>
   \<and> provide_completion example_digest example_engine (example_params 1)
     = Inl \<lparr>status_code = 500, err_detail = ''Completion error: engine fault''\<rparr>
   \<and> provide_completion example_digest example_engine
         \<lparr>text_document = \<lparr>text_content = ascii ''boom''\<rparr>,
          position = \<lparr>line = 0, character = 0\<rparr>\<rparr>
     = Inl \<lparr>status_code = 500, err_detail = ''Completion error: cannot parse''\<rparr>"
proof -
  let ?add = "\<lparr>name = ''add'', ctype = ''function'', docstring = Inr ''add(a, b)''\<rparr>"
  let ?sub = "\<lparr>name = ''sub'', ctype = ''function'',
               docstring = Inl (Exception ''no docstring'')\<rparr>"
  let ?mul = "\<lparr>name = ''mul'', ctype = ''function'', docstring = Inr ''mul(a, b)''\<rparr>"
  let ?boom = "\<lparr>text_document = \<lparr>text_content = ascii ''boom''\<rparr>,
               position = \<lparr>line = 0, character = 0\<rparr>\<rparr>"
  have script: "Script example_engine (text_content (text_document (example_params l)))
                  ''<virtual_document_05ff.py>'' = Inr ()" for l
    by (simp add: example_engine_def example_params_def ascii_def)
  have "complete example_engine () (line (position (example_params 2)) + 1)
          (character (position (example_params 2))) = Inr ([?add] @ ?sub # [?mul])
        \<and> (\<forall>p\<in>set [?add]. \<not> isl (docstring p))
        \<and> docstring ?sub = Inl (Exception ''no docstring'')"
    by (simp add: example_engine_def example_params_def ascii_def)
  then have "\<exists>pre m post.
           complete example_engine () (line (position (example_params 2)) + 1)
             (character (position (example_params 2))) = Inr (pre @ m # post)
           \<and> (\<forall>p\<in>set pre. \<not> isl (docstring p))
           \<and> docstring m = Inl (Exception ''no docstring'')"
    by blast
  with example_path [of 2] script [of 2] have docstring_raises:
    "provide_completion example_digest example_engine (example_params 2)
       = Inl \<lparr>status_code = 500,
              err_detail = ''Completion error: '' @ str (Exception ''no docstring'')\<rparr>"
    by (intro provide_completion_engine_raises [THEN conjunct1]) blast
  have "complete example_engine () (line (position (example_params 1)) + 1)
          (character (position (example_params 1))) = Inl (Exception ''engine fault'')"
    by (simp add: example_engine_def example_params_def ascii_def)
  with example_path [of 1] script [of 1] have complete_raises:
    "provide_completion example_digest example_engine (example_params 1)
       = Inl \<lparr>status_code = 500,
              err_detail = ''Completion error: '' @ str (Exception ''engine fault'')\<rparr>"
    by (intro provide_completion_engine_raises [THEN conjunct1]) blast
  have "get_virtual_path example_digest (text_content (text_document ?boom))
          = Inr ''<virtual_document_01ad.py>''"
    by (simp add: get_virtual_path_def encode_def ascii_def is_surrogate_def utf8_bytes_def
                  example_digest_def hex4_def hex_digit_def)
  moreover have "Script example_engine (text_content (text_document ?boom))
                   ''<virtual_document_01ad.py>'' = Inl (Exception ''cannot parse'')"
    by (simp add: example_engine_def)
  ultimately have script_raises:
    "provide_completion example_digest example_engine ?boom
       = Inl \<lparr>status_code = 500,
              err_detail = ''Completion error: '' @ str (Exception ''cannot parse'')\<rparr>"
    by (intro provide_completion_engine_raises [THEN conjunct1]) blast
  from docstring_raises complete_raises script_raises show ?thesis by simp
qed

section \<open>Diagnostics: exceptions other than syntax errors\<close>

text \<open>
  C8: when parsing raises an exception that is not a syntax error, the exception leaves
  the operation and no response is returned; a response with a diagnostic in it comes
  from a syntax error only.
\<close>

theorem provide_diagnostics_other_exception:
  "(ast_parse (text_content params) = Raises x \<longrightarrow>
      provide_diagnostics ast_parse params = Inl x \<and>
      (\<forall>r. provide_diagnostics ast_parse params \<noteq> Inr r)) \<and>
   (\<forall>r. provide_diagnostics ast_parse params = Inr r \<and> diagnostics r \<noteq> [] \<longrightarrow>
      (\<exists>e. ast_parse (text_content params) = RaisesSyntaxError e))"
  by (cases "ast_parse (text_content params)") (auto simp: provide_diagnostics_def)

theorem provide_diagnostics_other_exception_witness:
  "provide_diagnostics example_parse \<lparr>text_content = ascii ''a''\<rparr>
     = Inl (Exception ''source code string cannot contain null bytes'')"
  using provide_diagnostics_other_exception [of example_parse "\<lparr>text_content = ascii ''a''\<rparr>"]
  by (simp add: example_parse_def ascii_def)

section \<open>Virtual document namer: determinism\<close>

text \<open>
  C9, as stated: the namer returns a name for every document text. On a text with a
  surrogate code point, here the text of the single code point \<open>0xD800\<close>, the encoder
  raises and the namer returns no name.
\<close>

theorem get_virtual_path_lone_surrogate:
  "get_virtual_path example_digest [0xD800]
     = Inl (Exception
              ([CHR 0x27] @ ''utf-8'' @ [CHR 0x27] @ '' codec can'' @ [CHR 0x27] @
               ''t encode character '' @ [CHR 0x27, CHR 0x5C] @ ''ud800'' @ [CHR 0x27] @
               '' in position 0: surrogates not allowed''))"
  by (simp add: get_virtual_path_def encode_def is_surrogate_def surrogates_not_allowed_def
                hex4_def hex_digit_def decimal.simps)

text \<open>
  C9, amended: the namer is a function of the document text alone. For every text without
  a surrogate code point it returns \<open><virtual_document_\<close>, the digest of the UTF-8 bytes
  of the text, \<open>.py>\<close>; for a text with a surrogate it raises and returns no name. Two
  texts that are named have the same name exactly when the digests of their bytes agree,
  and the bytes are those of the exact text: two texts have the same bytes only when
  they are the same text. So identical content always yields the identical name.
\<close>

theorem get_virtual_path_of_text:
  "(if \<exists>c\<in>set t. is_surrogate c then isl (get_virtual_path md5 t)
    else get_virtual_path md5 t
           = Inr (''<virtual_document_'' @ md5 (concat (map utf8_bytes t)) @ ''.py>'')) \<and>
   (\<forall>name name'.
      get_virtual_path md5 t = Inr name \<and> get_virtual_path md5 t' = Inr name' \<longrightarrow>
      (name = name' \<longleftrightarrow>
         md5 (concat (map utf8_bytes t)) = md5 (concat (map utf8_bytes t')))) \<and>
   (concat (map utf8_bytes t) = concat (map utf8_bytes t') \<longleftrightarrow> t = t')"
proof (intro conjI allI impI)
  show "if \<exists>c\<in>set t. is_surrogate c then isl (get_virtual_path md5 t)
        else get_virtual_path md5 t
               = Inr (''<virtual_document_'' @ md5 (concat (map utf8_bytes t)) @ ''.py>'')"
    using get_virtual_path_surrogate [of t md5] get_virtual_path_no_surrogate [of t md5]
    by simp
next
  fix name name'
  assume named: "get_virtual_path md5 t = Inr name \<and> get_virtual_path md5 t' = Inr name'"
  have no_surrogate: "\<forall>c\<in>set s. \<not> is_surrogate c" if "get_virtual_path md5 s = Inr n" for s n
    using that get_virtual_path_surrogate [of s md5] by auto
  from named have "name = ''<virtual_document_'' @ md5 (concat (map utf8_bytes t)) @ ''.py>''"
    and "name' = ''<virtual_document_'' @ md5 (concat (map utf8_bytes t')) @ ''.py>''"
    using get_virtual_path_no_surrogate [OF no_surrogate, of t name md5]
          get_virtual_path_no_surrogate [OF no_surrogate, of t' name' md5]
    by simp_all
  then show "name = name' \<longleftrightarrow>
               md5 (concat (map utf8_bytes t)) = md5 (concat (map utf8_bytes t'))"
    by simp
next
  show "concat (map utf8_bytes t) = concat (map utf8_bytes t') \<longleftrightarrow> t = t'"
    using utf8_bytes_inj by blast
qed

theorem get_virtual_path_of_text_witness:
  "get_virtual_path example_digest (ascii ''x = 1'') = Inr ''<virtual_document_0126.py>'' \<and>
   get_virtual_path example_digest (ascii ''x = 2'') = Inr ''<virtual_document_0127.py>'' \<and>
   example_digest (concat (map utf8_bytes (ascii ''x = 1'')))
     \<noteq> example_digest (concat (map utf8_bytes (ascii ''x = 2''))) \<and>
   isl (get_virtual_path example_digest [0x78, 0xDFFF])"
proof -
  note eval = ascii_def is_surrogate_def utf8_bytes_def example_digest_def hex4_def hex_digit_def
  have one: "get_virtual_path example_digest (ascii ''x = 1'') = Inr ''<virtual_document_0126.py>''"
    using get_virtual_path_of_text [of "ascii ''x = 1''" example_digest, THEN conjunct1]
    by (simp add: eval)
  have two: "get_virtual_path example_digest (ascii ''x = 2'') = Inr ''<virtual_document_0127.py>''"
    using get_virtual_path_of_text [of "ascii ''x = 2''" example_digest, THEN conjunct1]
    by (simp add: eval)
  have "''<virtual_document_0126.py>'' = ''<virtual_document_0127.py>'' \<longleftrightarrow>
          example_digest (concat (map utf8_bytes (ascii ''x = 1'')))
            = example_digest (concat (map utf8_bytes (ascii ''x = 2'')))"
    using get_virtual_path_of_text
            [of "ascii ''x = 1''" example_digest "ascii ''x = 2''", THEN conjunct2, THEN conjunct1]
          one two
    by blast
  then have differ: "example_digest (concat (map utf8_bytes (ascii ''x = 1'')))
                       \<noteq> example_digest (concat (map utf8_bytes (ascii ''x = 2'')))"
    by simp
  have raises: "isl (get_virtual_path example_digest [0x78, 0xDFFF])"
    using get_virtual_path_of_text [of "[0x78, 0xDFFF]" example_digest, THEN conjunct1]
    by (simp add: is_surrogate_def)
  from one two differ raises show ?thesis by simp
qed

section \<open>Completion: detail and documentation\<close>

text \<open>
  C10: for every match that the engine returns (the constructor, called on the text and
  its virtual path, \<open>complete\<close> and every \<open>docstring()\<close> call return), the item at
  the same place has the
  match's category as its detail, the kind that the kind mapper gives for that same
  category, and the match's docstring as its documentation; both fields are present.
\<close>

theorem provide_completion_detail_and_documentation:
  assumes "get_virtual_path md5 (text_content (text_document params)) = Inr path"
    and "Script engine (text_content (text_document params)) path = Inr script"
    and "complete engine script (line (position params) + 1) (character (position params)) = Inr ms"
    and "\<forall>m\<in>set ms. \<not> isl (docstring m)"
  shows "\<exists>its. provide_completion md5 engine params = Inr \<lparr>items = its\<rparr> \<and>
               list_all2 (\<lambda>m it. detail it = Some (ctype m) \<and>
                                  kind it = get_completion_kind (ctype m) \<and>
                                  (\<exists>d. docstring m = Inr d \<and> documentation it = Some d))
                 ms its"
proof -
  have "provide_completion md5 engine params = Inr \<lparr>items = map item_of ms\<rparr>"
    by (rule completion_body_ok [OF assms])
  moreover have "list_all2 (\<lambda>m it. detail it = Some (ctype m) \<and>
                                  kind it = get_completion_kind (ctype m) \<and>
                                  (\<exists>d. docstring m = Inr d \<and> documentation it = Some d))
                   ms (map item_of ms)"
    using assms(4) by (auto simp: list_all2_map2 item_of_def intro!: list_all2_same [THEN iffD2])
  ultimately show ?thesis by blast
qed

theorem provide_completion_detail_and_documentation_witness:
  "\<exists>its. provide_completion example_digest example_engine (example_params 0) = Inr \<lparr>items = its\<rparr> \<and>
          map detail its = [Some ''function'', Some ''class'', Some ''statement''] \<and>
          map kind its = [3, 7, 1] \<and>
          map documentation its = [Some ''add(a, b)'', Some [], Some []]"
proof -
  have "\<exists>its. provide_completion example_digest example_engine (example_params 0)
                 = Inr \<lparr>items = its\<rparr> \<and>
               list_all2 (\<lambda>m it. detail it = Some (ctype m) \<and>
                                  kind it = get_completion_kind (ctype m) \<and>
                                  (\<exists>d. docstring m = Inr d \<and> documentation it = Some d))
                 example_completions its"
    by (rule provide_completion_detail_and_documentation [OF example_path, where script = "()"])
       (simp_all add: example_engine_def example_params_def example_completions_def ascii_def)
  then obtain its where
    r: "provide_completion example_digest example_engine (example_params 0) = Inr \<lparr>items = its\<rparr>"
    and a: "list_all2 (\<lambda>m it. detail it = Some (ctype m) \<and>
                                  kind it = get_completion_kind (ctype m) \<and>
                                  (\<exists>d. docstring m = Inr d \<and> documentation it = Some d))
                 example_completions its"
    by blast
  from a have "map detail its = [Some ''function'', Some ''class'', Some ''statement''] \<and>
          map kind its = [3, 7, 1] \<and>
          map documentation its = [Some ''add(a, b)'', Some [], Some []]"
    by (auto simp: example_completions_def list_all2_Cons1
                   get_completion_kind_def COMPLETION_KINDS_def)
  with r show ?thesis by (intro exI [of _ its]) simp
qed

end
